theory Spec2Isabelle
  imports Main
begin

section \<open>The Solana distributor client: data model\<close>

text \<open>
  A shallow embedding of \<^verbatim>\<open>src/packages/distributor/solana/client.ts\<close>, class
  \<^verbatim>\<open>SolanaDistributorClient\<close>: the three instruction composers
  \<^verbatim>\<open>prepareCreateInstructions\<close>, \<^verbatim>\<open>prepareClaimInstructions\<close> and
  \<^verbatim>\<open>prepareClawbackInstructions\<close>.

  A \<^verbatim>\<open>PublicKey\<close> is modelled by its base58 text. \<^verbatim>\<open>BN\<close> values are unbounded
  integers, so they are \<open>int\<close>; the \<^verbatim>\<open>number\<close> fields of the input data are taken to
  be integral and are \<open>int\<close> as well, \<^verbatim>\<open>new BN(n, 10)\<close> being the identity on them.
\<close>

type_synonym pubkey = string

definition SystemProgram_programId :: pubkey where
  "SystemProgram_programId = ''11111111111111111111111111111111''"

definition ASSOCIATED_TOKEN_PROGRAM_ID :: pubkey where
  "ASSOCIATED_TOKEN_PROGRAM_ID = ''ATokenGPvbdGVxr1b2hvZbsiqW5xWH25efTNsLJA8knL''"

definition NATIVE_MINT :: pubkey where
  "NATIVE_MINT = ''So11111111111111111111111111111111111111112''"

text \<open>Every \<^verbatim>\<open>throw\<close> of the three composers, and the failures of their collaborators.\<close>

datatype error =
    InvokerKeyMissing    \<comment> \<open>"Invoker's PublicKey is not available, check passed wallet adapter!"\<close>
  | UnlockPeriodTooLong  \<comment> \<open>"The unlock period cannot be longer than the total vesting duration!"\<close>
  | AccountInfoMissing   \<comment> \<open>"Couldn't get account info"\<close>
  | InvalidPublicKey     \<comment> \<open>\<^verbatim>\<open>new PublicKey(s)\<close> on a string that is no public key\<close>
  | FetchFailed          \<comment> \<open>a network or decoding failure inside a collaborator\<close>

text \<open>
  The spec's taxonomy groups the first two as \<^verbatim>\<open>InvalidInput\<close>: a missing identity of
  the invoking party, and an unlock period that exceeds the vesting window.
\<close>

definition isInvalidInput :: "error \<Rightarrow> bool" where
  "isInvalidInput e = (e = InvokerKeyMissing \<or> e = UnlockPeriodTooLong)"

subsection \<open>Input data\<close>

text \<open>
  \<^verbatim>\<open>ICreateSolanaExt\<close> and \<^verbatim>\<open>IInteractSolanaExt\<close>: \<open>invokerPublicKey\<close> is
  \<^verbatim>\<open>extParams.invoker.publicKey\<close>, which a wallet adapter leaves null while it is not
  connected. \<open>isNative\<close> belongs to \<^verbatim>\<open>ICreateSolanaExt\<close> only; the claim and clawback
  composers never read it. The compute fields are what the base-instruction preparer is
  handed along with the rest of \<^verbatim>\<open>extParams\<close>.
\<close>

record solana_ext =
  invokerPublicKey :: "pubkey option"
  isNative :: bool
  computePrice :: "nat option"
  computeLimit :: "nat option"

text \<open>\<^verbatim>\<open>ICreateDistributorData\<close>, the fields \<^verbatim>\<open>prepareCreateInstructions\<close> reads.\<close>

record create_data =
  cd_mint :: string
  cd_version :: int
  cd_root :: "nat list"
  cd_maxTotalClaim :: int
  cd_maxNumNodes :: int
  cd_unlockPeriod :: int
  cd_startVestingTs :: int
  cd_endVestingTs :: int
  cd_clawbackStartTs :: int
  cd_claimsClosable :: bool

text \<open>\<^verbatim>\<open>IClaimData\<close>: the claim request.\<close>

record claim_data =
  claim_id :: string
  amountLocked :: int
  amountUnlocked :: int
  claim_proof :: "nat list list"    \<comment> \<open>\<^verbatim>\<open>data.proof\<close>\<close>

text \<open>\<^verbatim>\<open>IClawbackData\<close>.\<close>

record clawback_data =
  clawback_id :: string

subsection \<open>On-chain accounts\<close>

text \<open>
  The decoded accounts of \<^verbatim>\<open>./generated/accounts\<close>, with the fields the client reads:
  \<^verbatim>\<open>distributor.mint\<close>, \<^verbatim>\<open>.tokenVault\<close>, \<^verbatim>\<open>.clawbackReceiver\<close>, \<^verbatim>\<open>.startTs\<close> and
  \<^verbatim>\<open>.unlockPeriod\<close>. Of a \<^verbatim>\<open>ClaimStatus\<close> the client tests the presence only; the two
  amounts are the attributes the specification lists.
\<close>

record merkle_distributor =
  mint :: pubkey
  tokenVault :: pubkey
  clawbackReceiver :: pubkey
  startTs :: int
  unlockPeriod :: int

record claim_status =
  lockedAmountWithdrawn :: int
  unlockedAmountClaimed :: int

record mint_account =
  decimals :: nat

subsection \<open>Instructions\<close>

text \<open>
  Instructions are kept symbolic: each encoder of \<^verbatim>\<open>./generated/instructions\<close> is a
  constructor that holds its arguments, accounts and program id. \<open>setup_ix\<close> are the
  instructions the collaborators of \<^verbatim>\<open>@streamflow/common/solana\<close> hand back: the prefix
  of the base-instruction preparer, the creation of a missing associated token account
  (payer, account, owner, mint, token program) and the wrapping of the native token.
\<close>

datatype setup_ix =
    BaseIx nat
  | CreateAta pubkey pubkey pubkey pubkey pubkey
  | WrapIx nat

record new_distributor_args =
  a_version :: int
  a_root :: "nat list"
  a_maxTotalClaim :: int
  a_maxNumNodes :: int
  a_unlockPeriod :: int
  a_startVestingTs :: int
  a_endVestingTs :: int
  a_clawbackStartTs :: int
  a_claimsClosable :: bool

record new_distributor_accounts =
  nd_distributor :: pubkey
  nd_clawbackReceiver :: pubkey
  nd_mint :: pubkey
  nd_tokenVault :: pubkey
  nd_admin :: pubkey
  nd_systemProgram :: pubkey
  nd_associatedTokenProgram :: pubkey
  nd_tokenProgram :: pubkey

record new_claim_args =
  nc_amountLocked :: int
  nc_amountUnlocked :: int
  nc_proof :: "nat list list"

text \<open>\<^verbatim>\<open>ClaimLockedAccounts | NewClaimAccounts\<close>: one object serves both encoders.\<close>

record claim_accounts =
  ca_distributor :: pubkey
  ca_claimStatus :: pubkey
  ca_from :: pubkey
  ca_to :: pubkey
  ca_claimant :: pubkey
  ca_mint :: pubkey
  ca_tokenProgram :: pubkey
  ca_systemProgram :: pubkey
  ca_eventAuthority :: pubkey
  ca_program :: pubkey

record clawback_accounts =
  cb_distributor :: pubkey
  cb_from :: pubkey
  cb_to :: pubkey
  cb_admin :: pubkey
  cb_mint :: pubkey
  cb_systemProgram :: pubkey
  cb_tokenProgram :: pubkey

datatype instruction =
    Setup setup_ix
  | NewDistributor new_distributor_args new_distributor_accounts pubkey
  | TransferChecked pubkey pubkey pubkey pubkey int nat pubkey
  | NewClaim new_claim_args claim_accounts pubkey
  | ClaimLocked claim_accounts pubkey
  | Clawback clawback_accounts pubkey

fun isNewClaim :: "instruction \<Rightarrow> bool" where
  "isNewClaim (NewClaim a acc p) = True"
| "isNewClaim ix = False"

fun isClaimLocked :: "instruction \<Rightarrow> bool" where
  "isClaimLocked (ClaimLocked acc p) = True"
| "isClaimLocked ix = False"

definition isClaimIx :: "instruction \<Rightarrow> bool" where
  "isClaimIx ix = (isNewClaim ix \<or> isClaimLocked ix)"

section \<open>The collaborators\<close>

text \<open>
  The helpers of \<^verbatim>\<open>./utils\<close> and \<^verbatim>\<open>@streamflow/common/solana\<close> that compute without
  the network are parameters of the model, so every theorem holds whatever they compute:
  the \<^verbatim>\<open>PublicKey\<close> constructor (\<open>None\<close> where it throws), the three address
  derivations, \<^verbatim>\<open>ata\<close> (mint, owner, token program) and the synchronous
  \<^verbatim>\<open>prepareBaseInstructions\<close>.
\<close>

record sdk =
  newPublicKey :: "string \<Rightarrow> pubkey option"
  getDistributorPda :: "pubkey \<Rightarrow> pubkey \<Rightarrow> int \<Rightarrow> pubkey"
  getClaimantStatusPda :: "pubkey \<Rightarrow> pubkey \<Rightarrow> pubkey \<Rightarrow> pubkey"
  getEventAuthorityPda :: "pubkey \<Rightarrow> pubkey"
  ata :: "pubkey \<Rightarrow> pubkey \<Rightarrow> pubkey \<Rightarrow> pubkey"
  prepareBaseInstructions :: "solana_ext \<Rightarrow> setup_ix list"

text \<open>The client object; \<^verbatim>\<open>this.connection\<close> is the world below.\<close>

record client =
  programId :: pubkey

text \<open>
  What a read of the network returns at an address: the account, its absence, or a
  failure of the transport or of the decoder.
\<close>

datatype 'a fetched = Found 'a | NotFound | Failed

datatype read =
    ReadMint pubkey
  | ReadDistributor pubkey
  | ReadClaimStatus pubkey
  | ReadTokenAccounts "pubkey list"
  | ReadWrapped pubkey

text \<open>
  The world a composer runs in: the wall clock \<^verbatim>\<open>Date.now()\<close> in milliseconds, the
  chain as each reader sees it, and the log of the network reads made so far. The
  composers only read the chain, so a run changes nothing but the log. The helpers that
  are handed \<^verbatim>\<open>this.connection\<close> and awaited are the ones that read the network.
\<close>

record world =
  clockMs :: int
  mintAt :: "pubkey \<Rightarrow> (mint_account \<times> pubkey) fetched"
  distributorAt :: "pubkey \<Rightarrow> merkle_distributor fetched"
  claimStatusAt :: "pubkey \<Rightarrow> claim_status fetched"
  tokenAccountAt :: "pubkey \<Rightarrow> unit fetched"
  wrappedAt :: "pubkey \<Rightarrow> int \<Rightarrow> setup_ix list option"
  reads :: "read list"

definition logRead :: "read \<Rightarrow> world \<Rightarrow> world" where
  "logRead r w = w\<lparr>reads := reads w @ [r]\<rparr>"

text \<open>
  Modelled from the spec: \<^verbatim>\<open>MerkleDistributor.fetch\<close> and \<^verbatim>\<open>ClaimStatus.fetch\<close> of
  \<^verbatim>\<open>./generated/accounts\<close> are not in the sources. The state reader's contract is
  \<^verbatim>\<open>fetch(address) -> T | NotFound\<close>, a read-only network call whose network and
  decoding errors propagate.
\<close>

definition MerkleDistributor_fetch ::
  "world \<Rightarrow> pubkey \<Rightarrow> (error + merkle_distributor option) \<times> world" where
  "MerkleDistributor_fetch w address =
     ((case distributorAt w address of
        Found d \<Rightarrow> Inr (Some d)
      | NotFound \<Rightarrow> Inr None
      | Failed \<Rightarrow> Inl FetchFailed),
      logRead (ReadDistributor address) w)"

definition ClaimStatus_fetch ::
  "world \<Rightarrow> pubkey \<Rightarrow> (error + claim_status option) \<times> world" where
  "ClaimStatus_fetch w address =
     ((case claimStatusAt w address of
        Found s \<Rightarrow> Inr (Some s)
      | NotFound \<Rightarrow> Inr None
      | Failed \<Rightarrow> Inl FetchFailed),
      logRead (ReadClaimStatus address) w)"

text \<open>
  Modelled from the spec: \<^verbatim>\<open>getMintAndProgram\<close> of \<^verbatim>\<open>@streamflow/common/solana\<close> is
  not in the sources. It is handed the connection and a mint and awaited, and gives the
  mint account (whose \<^verbatim>\<open>decimals\<close> the create composer uses) with the token program
  that owns it: a read of the network, which has no result for a mint that does not exist.
\<close>

definition getMintAndProgram ::
  "world \<Rightarrow> pubkey \<Rightarrow> (error + mint_account \<times> pubkey) \<times> world" where
  "getMintAndProgram w address =
     ((case mintAt w address of
        Found m \<Rightarrow> Inr m
      | NotFound \<Rightarrow> Inl FetchFailed
      | Failed \<Rightarrow> Inl FetchFailed),
      logRead (ReadMint address) w)"

text \<open>
  Modelled from the spec: \<^verbatim>\<open>checkOrCreateAtaBatch\<close> of \<^verbatim>\<open>@streamflow/common/solana\<close>
  is not in the sources. The associated-account ensurer, given a mint and an owner,
  ensures a token-holding account exists, returning any creation instructions needed:
  one read of the owners' associated accounts, and a creation instruction, paid by the
  invoker, for each one that is absent.
\<close>

definition checkOrCreateAtaBatch ::
  "sdk \<Rightarrow> world \<Rightarrow> pubkey list \<Rightarrow> pubkey \<Rightarrow> pubkey \<Rightarrow> pubkey
     \<Rightarrow> (error + setup_ix list) \<times> world" where
  "checkOrCreateAtaBatch k w owners mnt payer tokenProgramId =
     (let atas = map (\<lambda>owner. ata k mnt owner tokenProgramId) owners in
      (if list_ex (\<lambda>a. tokenAccountAt w a = Failed) atas then Inl FetchFailed
       else Inr (concat (map (\<lambda>owner.
              if tokenAccountAt w (ata k mnt owner tokenProgramId) = NotFound
              then [CreateAta payer (ata k mnt owner tokenProgramId) owner mnt tokenProgramId]
              else []) owners)),
       logRead (ReadTokenAccounts atas) w))"

text \<open>
  Modelled from the spec: \<^verbatim>\<open>prepareWrappedAccount\<close> of \<^verbatim>\<open>@streamflow/common/solana\<close>
  is not in the sources. It is handed the connection, the invoker and the amount and
  awaited, and gives the optional wrap-native-token instructions: a read of the network
  that decides them (\<open>wrappedAt\<close>, \<open>None\<close> when the read fails).
\<close>

definition prepareWrappedAccount ::
  "world \<Rightarrow> pubkey \<Rightarrow> int \<Rightarrow> (error + setup_ix list) \<times> world" where
  "prepareWrappedAccount w sender amount =
     ((case wrappedAt w sender amount of
        Some ixs \<Rightarrow> Inr ixs
      | None \<Rightarrow> Inl FetchFailed),
      logRead (ReadWrapped sender) w)"

section \<open>The composers\<close>

text \<open>
  A composer returns its result, \<open>Inl\<close> the error it throws, with the world it leaves:
  the world it was given and the reads it made, also when it throws.
\<close>

text \<open>
  \<^verbatim>\<open>Math.floor(Date.now() / 1000)\<close>: the wall clock in whole seconds.
\<close>

definition nowTs :: "world \<Rightarrow> int" where
  "nowTs w = clockMs w div 1000"

subsection \<open>\<^verbatim>\<open>prepareCreateInstructions\<close>\<close>

definition prepareCreateInstructions ::
  "sdk \<Rightarrow> client \<Rightarrow> world \<Rightarrow> create_data \<Rightarrow> solana_ext
     \<Rightarrow> (error + pubkey \<times> instruction list) \<times> world" where
  "prepareCreateInstructions k this w dat extParams =
     (case invokerPublicKey extParams of
        None \<Rightarrow> (Inl InvokerKeyMissing, w)
      | Some invoker \<Rightarrow>
          let ixs = map Setup (prepareBaseInstructions k extParams) in
          (case (if isNative extParams then Some NATIVE_MINT else newPublicKey k (cd_mint dat)) of
             None \<Rightarrow> (Inl InvalidPublicKey, w)
           | Some mnt \<Rightarrow>
               (case getMintAndProgram w mnt of
                  (Inl e, w1) \<Rightarrow> (Inl e, w1)
                | (Inr (mintAccount, tokenProgramId), w1) \<Rightarrow>
                    let distributorPublicKey = getDistributorPda k (programId this) mnt (cd_version dat);
                        tokenVlt = ata k mnt distributorPublicKey tokenProgramId;
                        senderTokens = ata k mnt invoker tokenProgramId;
                        args = \<lparr>a_version = cd_version dat,
                                a_root = cd_root dat,
                                a_maxTotalClaim = cd_maxTotalClaim dat,
                                a_maxNumNodes = cd_maxNumNodes dat,
                                a_unlockPeriod = cd_unlockPeriod dat,
                                a_startVestingTs = cd_startVestingTs dat,
                                a_endVestingTs = cd_endVestingTs dat,
                                a_clawbackStartTs = cd_clawbackStartTs dat,
                                a_claimsClosable = cd_claimsClosable dat\<rparr>;
                        accounts = \<lparr>nd_distributor = distributorPublicKey,
                                    nd_clawbackReceiver = senderTokens,
                                    nd_mint = mnt,
                                    nd_tokenVault = tokenVlt,
                                    nd_admin = invoker,
                                    nd_systemProgram = SystemProgram_programId,
                                    nd_associatedTokenProgram = ASSOCIATED_TOKEN_PROGRAM_ID,
                                    nd_tokenProgram = tokenProgramId\<rparr>
                    in
                    (case (if isNative extParams
                           then prepareWrappedAccount w1 invoker (cd_maxTotalClaim dat)
                           else (Inr [], w1)) of
                       (Inl e, w2) \<Rightarrow> (Inl e, w2)
                     | (Inr wrapIxs, w2) \<Rightarrow>
                         let ixs = ixs @ map Setup wrapIxs;
                             endVestingTs = (if a_endVestingTs args = 0 then nowTs w2
                                             else a_endVestingTs args);
                             startVestingTs = (if a_startVestingTs args = 0 then nowTs w2
                                               else a_startVestingTs args)
                         in
                         if endVestingTs > startVestingTs
                            \<and> endVestingTs - startVestingTs < a_unlockPeriod args
                         then (Inl UnlockPeriodTooLong, w2)
                         else
                           (Inr (distributorPublicKey,
                                 ixs @ [NewDistributor args accounts (programId this),
                                        TransferChecked senderTokens mnt tokenVlt invoker
                                          (cd_maxTotalClaim dat) (decimals mintAccount)
                                          tokenProgramId]),
                            w2)))))"

subsection \<open>\<^verbatim>\<open>prepareClaimInstructions\<close>\<close>

text \<open>
  The condition of line 256, under which the claim-locked instruction is pushed:
  \<^verbatim>\<open>claimStatus || (data.amountLocked.gtn(0) &&
  nowTs.sub(distributor.startTs).gte(distributor.unlockPeriod))\<close>.
\<close>

definition unlockDue ::
  "claim_status option \<Rightarrow> claim_data \<Rightarrow> int \<Rightarrow> merkle_distributor \<Rightarrow> bool" where
  "unlockDue claimStatus dat now distributor =
     (claimStatus \<noteq> None
      \<or> (amountLocked dat > 0 \<and> now - startTs distributor \<ge> unlockPeriod distributor))"

definition prepareClaimInstructions ::
  "sdk \<Rightarrow> client \<Rightarrow> world \<Rightarrow> claim_data \<Rightarrow> solana_ext
     \<Rightarrow> (error + instruction list) \<times> world" where
  "prepareClaimInstructions k this w dat extParams =
     (case invokerPublicKey extParams of
        None \<Rightarrow> (Inl InvokerKeyMissing, w)
      | Some invoker \<Rightarrow>
          (case newPublicKey k (claim_id dat) of
             None \<Rightarrow> (Inl InvalidPublicKey, w)
           | Some distributorPublicKey \<Rightarrow>
               (case MerkleDistributor_fetch w distributorPublicKey of
                  (Inl e, w1) \<Rightarrow> (Inl e, w1)
                | (Inr None, w1) \<Rightarrow> (Inl AccountInfoMissing, w1)
                | (Inr (Some distributor), w1) \<Rightarrow>
                    (case getMintAndProgram w1 (mint distributor) of
                       (Inl e, w2) \<Rightarrow> (Inl e, w2)
                     | (Inr (mintAccount, tokenProgramId), w2) \<Rightarrow>
                         let ixs = map Setup (prepareBaseInstructions k extParams) in
                         (case checkOrCreateAtaBatch k w2 [invoker] (mint distributor) invoker
                                 tokenProgramId of
                            (Inl e, w3) \<Rightarrow> (Inl e, w3)
                          | (Inr ataIxs, w3) \<Rightarrow>
                              let ixs = ixs @ map Setup ataIxs;
                                  invokerTokens = ata k (mint distributor) invoker tokenProgramId;
                                  claimStatusPublicKey =
                                    getClaimantStatusPda k (programId this) distributorPublicKey invoker;
                                  eventAuthorityPublicKey = getEventAuthorityPda k (programId this)
                              in
                              (case ClaimStatus_fetch w3 claimStatusPublicKey of
                                 (Inl e, w4) \<Rightarrow> (Inl e, w4)
                               | (Inr claimStatus, w4) \<Rightarrow>
                                   let accounts = \<lparr>ca_distributor = distributorPublicKey,
                                                   ca_claimStatus = claimStatusPublicKey,
                                                   ca_from = tokenVault distributor,
                                                   ca_to = invokerTokens,
                                                   ca_claimant = invoker,
                                                   ca_mint = mint distributor,
                                                   ca_tokenProgram = tokenProgramId,
                                                   ca_systemProgram = SystemProgram_programId,
                                                   ca_eventAuthority = eventAuthorityPublicKey,
                                                   ca_program = programId this\<rparr>;
                                       ixs = (if claimStatus = None
                                              then ixs @ [NewClaim
                                                     \<lparr>nc_amountLocked = amountLocked dat,
                                                      nc_amountUnlocked = amountUnlocked dat,
                                                      nc_proof = claim_proof dat\<rparr>
                                                     accounts (programId this)]
                                              else ixs);
                                       ixs = (if unlockDue claimStatus dat (nowTs w4) distributor
                                              then ixs @ [ClaimLocked accounts (programId this)]
                                              else ixs)
                                   in (Inr ixs, w4)))))))"

subsection \<open>\<^verbatim>\<open>prepareClawbackInstructions\<close>\<close>

definition prepareClawbackInstructions ::
  "sdk \<Rightarrow> client \<Rightarrow> world \<Rightarrow> clawback_data \<Rightarrow> solana_ext
     \<Rightarrow> (error + instruction list) \<times> world" where
  "prepareClawbackInstructions k this w dat extParams =
     (case invokerPublicKey extParams of
        None \<Rightarrow> (Inl InvokerKeyMissing, w)
      | Some invoker \<Rightarrow>
          (case newPublicKey k (clawback_id dat) of
             None \<Rightarrow> (Inl InvalidPublicKey, w)
           | Some distributorPublicKey \<Rightarrow>
               (case MerkleDistributor_fetch w distributorPublicKey of
                  (Inl e, w1) \<Rightarrow> (Inl e, w1)
                | (Inr None, w1) \<Rightarrow> (Inl AccountInfoMissing, w1)
                | (Inr (Some distributor), w1) \<Rightarrow>
                    (case getMintAndProgram w1 (mint distributor) of
                       (Inl e, w2) \<Rightarrow> (Inl e, w2)
                     | (Inr (mintAccount, tokenProgramId), w2) \<Rightarrow>
                         let ixs = map Setup (prepareBaseInstructions k extParams) in
                         (case checkOrCreateAtaBatch k w2 [invoker] (mint distributor) invoker
                                 tokenProgramId of
                            (Inl e, w3) \<Rightarrow> (Inl e, w3)
                          | (Inr ataIxs, w3) \<Rightarrow>
                              let ixs = ixs @ map Setup ataIxs;
                                  accounts = \<lparr>cb_distributor = distributorPublicKey,
                                              cb_from = tokenVault distributor,
                                              cb_to = clawbackReceiver distributor,
                                              cb_admin = invoker,
                                              cb_mint = mint distributor,
                                              cb_systemProgram = SystemProgram_programId,
                                              cb_tokenProgram = tokenProgramId\<rparr>
                              in (Inr (ixs @ [Clawback accounts (programId this)]), w3))))))"

section \<open>What a composer depends on\<close>


section \<open>A concrete campaign\<close>

text \<open>
  The scenario of the specification's testable properties: a distributor with
  \<open>startTs = 1000\<close> and \<open>unlockPeriod = 500\<close>, and the claimant \<open>alice\<close>. The
  derivations of \<open>sdk0\<close> spell their seeds out, and its base-instruction preparer
  gives one instruction for each compute field that is set.
\<close>

definition sdk0 :: sdk where
  "sdk0 = \<lparr>newPublicKey = (\<lambda>s. if s = [] then None else Some s),
           getDistributorPda = (\<lambda>p m v. ''D/'' @ m),
           getClaimantStatusPda = (\<lambda>p d c. ''S/'' @ d @ ''/'' @ c),
           getEventAuthorityPda = (\<lambda>p. ''E/'' @ p),
           ata = (\<lambda>m owner tp. ''A/'' @ m @ ''/'' @ owner),
           prepareBaseInstructions = (\<lambda>e.
             (case computePrice e of None \<Rightarrow> [] | Some p \<Rightarrow> [BaseIx p])
             @ (case computeLimit e of None \<Rightarrow> [] | Some l \<Rightarrow> [BaseIx l]))\<rparr>"

definition client0 :: client where
  "client0 = \<lparr>programId = ''prog''\<rparr>"

definition distributor0 :: merkle_distributor where
  "distributor0 = \<lparr>mint = ''mint'', tokenVault = ''vault'', clawbackReceiver = ''treasury'',
                   startTs = 1000, unlockPeriod = 500\<rparr>"

text \<open>
  The world at a clock reading, with what the chain holds at alice's claim status and
  at her token account; nothing has been read yet.
\<close>

definition world0 :: "int \<Rightarrow> claim_status fetched \<Rightarrow> unit fetched \<Rightarrow> world" where
  "world0 ms status tokens =
     \<lparr>clockMs = ms,
      mintAt = (\<lambda>a. if a = ''mint'' then Found (\<lparr>decimals = 9\<rparr>, ''tokenprog'') else NotFound),
      distributorAt = (\<lambda>a. if a = ''dist'' then Found distributor0 else NotFound),
      claimStatusAt = (\<lambda>a. if a = ''S/dist/alice'' then status else NotFound),
      tokenAccountAt = (\<lambda>a. if a = ''A/mint/alice'' then tokens else NotFound),
      wrappedAt = (\<lambda>a n. Some [WrapIx (nat n)]),
      reads = []\<rparr>"

definition request0 :: "string \<Rightarrow> int \<Rightarrow> claim_data" where
  "request0 ident locked = \<lparr>claim_id = ident, amountLocked = locked, amountUnlocked = 50,
                            claim_proof = [[1, 2], [3]]\<rparr>"

definition ext0 :: "pubkey option \<Rightarrow> solana_ext" where
  "ext0 key = \<lparr>invokerPublicKey = key, isNative = False, computePrice = None,
               computeLimit = None\<rparr>"

definition accounts0 :: claim_accounts where
  "accounts0 = \<lparr>ca_distributor = ''dist'', ca_claimStatus = ''S/dist/alice'',
                ca_from = ''vault'', ca_to = ''A/mint/alice'', ca_claimant = ''alice'',
                ca_mint = ''mint'', ca_tokenProgram = ''tokenprog'',
                ca_systemProgram = SystemProgram_programId,
                ca_eventAuthority = ''E/prog'', ca_program = ''prog''\<rparr>"

definition newClaim0 :: "int \<Rightarrow> instruction" where
  "newClaim0 locked = NewClaim \<lparr>nc_amountLocked = locked, nc_amountUnlocked = 50,
                                nc_proof = [[1, 2], [3]]\<rparr> accounts0 ''prog''"

definition createAta0 :: instruction where
  "createAta0 = Setup (CreateAta ''alice'' ''A/mint/alice'' ''alice'' ''mint'' ''tokenprog'')"

definition status0 :: claim_status where
  "status0 = \<lparr>lockedAmountWithdrawn = 0, unlockedAmountClaimed = 50\<rparr>"

definition status1 :: claim_status where
  "status1 = \<lparr>lockedAmountWithdrawn = 100, unlockedAmountClaimed = 50\<rparr>"

definition createData0 :: "int \<Rightarrow> int \<Rightarrow> int \<Rightarrow> create_data" where
  "createData0 start stop period =
     \<lparr>cd_mint = ''mint'', cd_version = 1, cd_root = [7, 7], cd_maxTotalClaim = 1000,
      cd_maxNumNodes = 3, cd_unlockPeriod = period, cd_startVestingTs = start,
      cd_endVestingTs = stop, cd_clawbackStartTs = 0, cd_claimsClosable = False\<rparr>"

definition clawbackData0 :: "string \<Rightarrow> clawback_data" where
  "clawbackData0 ident = \<lparr>clawback_id = ident\<rparr>"

text \<open>What it takes to run the claim composer on the campaign.\<close>

lemmas claim_run_defs = prepareClaimInstructions_def MerkleDistributor_fetch_def
  getMintAndProgram_def checkOrCreateAtaBatch_def ClaimStatus_fetch_def logRead_def nowTs_def
  unlockDue_def Let_def sdk0_def client0_def distributor0_def world0_def request0_def ext0_def
  accounts0_def

section \<open>What a run leaves and what it returns\<close>

text \<open>A read adds to the log and changes nothing else.\<close>

lemma nowTs_logRead: "nowTs (logRead r w) = nowTs w"
  by (simp add: nowTs_def logRead_def)

lemma views_logRead:
  "mintAt (logRead r w) = mintAt w"
  "distributorAt (logRead r w) = distributorAt w"
  "claimStatusAt (logRead r w) = claimStatusAt w"
  "tokenAccountAt (logRead r w) = tokenAccountAt w"
  "wrappedAt (logRead r w) = wrappedAt w"
  "clockMs (logRead r w) = clockMs w"
  by (simp_all add: logRead_def)

text \<open>
  A composed claim list: the setup instructions, then the new-claim instruction when no
  claim status was found, then the claim-locked instruction when the unlock is due.
\<close>

lemma pre_snoc: "\<exists>pre. map Setup xs @ [Setup y] = map Setup pre"
proof
  show "map Setup xs @ [Setup y] = map Setup (xs @ [y])" by simp
qed

lemma prepareClaim_shape:
  assumes "fst (prepareClaimInstructions k this w dat ext) = Inr ixs"
  shows "\<exists>invoker dpk d ma tp cs.
      invokerPublicKey ext = Some invoker \<and> newPublicKey k (claim_id dat) = Some dpk \<and>
      distributorAt w dpk = Found d \<and> mintAt w (mint d) = Found (ma, tp) \<and>
      claimStatusAt w (getClaimantStatusPda k (programId this) dpk invoker)
        = (case cs of None \<Rightarrow> NotFound | Some s \<Rightarrow> Found s) \<and>
      (\<exists>pre acc.
      ixs = map Setup pre
            @ (if cs = None
               then [NewClaim \<lparr>nc_amountLocked = amountLocked dat,
                               nc_amountUnlocked = amountUnlocked dat,
                               nc_proof = claim_proof dat\<rparr> acc (programId this)]
               else [])
            @ (if unlockDue cs dat (nowTs w) d then [ClaimLocked acc (programId this)] else []))"
  using assms
  unfolding prepareClaimInstructions_def MerkleDistributor_fetch_def getMintAndProgram_def
    checkOrCreateAtaBatch_def ClaimStatus_fetch_def
  by (auto simp: Let_def nowTs_logRead views_logRead pre_snoc
      split: option.splits fetched.splits prod.splits sum.splits if_splits)

lemma filter_claims_setup [simp]:
  "filter isNewClaim (map Setup xs) = []"
  "filter isClaimLocked (map Setup xs) = []"
  "filter isClaimIx (map Setup xs) = []"
  by (induction xs) (simp_all add: isClaimIx_def)

text \<open>The same, for a caller that knows which accounts the run read.\<close>

lemma prepareClaim_known:
  assumes key: "invokerPublicKey ext = Some invoker"
    and ident: "newPublicKey k (claim_id dat) = Some dpk"
    and dist: "distributorAt w dpk = Found d"
    and run: "fst (prepareClaimInstructions k this w dat ext) = Inr ixs"
  shows "\<exists>cs pre acc.
      claimStatusAt w (getClaimantStatusPda k (programId this) dpk invoker)
        = (case cs of None \<Rightarrow> NotFound | Some s \<Rightarrow> Found s) \<and>
      ixs = map Setup pre
            @ (if cs = None
               then [NewClaim \<lparr>nc_amountLocked = amountLocked dat,
                               nc_amountUnlocked = amountUnlocked dat,
                               nc_proof = claim_proof dat\<rparr> acc (programId this)]
               else [])
            @ (if unlockDue cs dat (nowTs w) d then [ClaimLocked acc (programId this)] else [])"
proof -
  from prepareClaim_shape [OF run] obtain invoker' dpk' d' ma tp cs pre acc where
    h: "invokerPublicKey ext = Some invoker'" "newPublicKey k (claim_id dat) = Some dpk'"
       "distributorAt w dpk' = Found d'"
       "claimStatusAt w (getClaimantStatusPda k (programId this) dpk' invoker')
          = (case cs of None \<Rightarrow> NotFound | Some s \<Rightarrow> Found s)"
       "ixs = map Setup pre
            @ (if cs = None
               then [NewClaim \<lparr>nc_amountLocked = amountLocked dat,
                               nc_amountUnlocked = amountUnlocked dat,
                               nc_proof = claim_proof dat\<rparr> acc (programId this)]
               else [])
            @ (if unlockDue cs dat (nowTs w) d' then [ClaimLocked acc (programId this)] else [])"
    by blast
  from h(1) key have i: "invoker' = invoker" by simp
  from h(2) ident have p: "dpk' = dpk" by simp
  from h(3) dist p have dd: "d' = d" by simp
  from h(4,5) i p dd show ?thesis by blast
qed

lemma prepareClaim_tail:
  assumes key: "invokerPublicKey ext = Some invoker"
    and ident: "newPublicKey k (claim_id dat) = Some dpk"
    and dist: "distributorAt w dpk = Found d"
    and status: "claimStatusAt w (getClaimantStatusPda k (programId this) dpk invoker)
                   = (case cs of None \<Rightarrow> NotFound | Some s \<Rightarrow> Found s)"
    and run: "fst (prepareClaimInstructions k this w dat ext) = Inr ixs"
  shows "\<exists>pre acc.
      ixs = map Setup pre
            @ (if cs = None
               then [NewClaim \<lparr>nc_amountLocked = amountLocked dat,
                               nc_amountUnlocked = amountUnlocked dat,
                               nc_proof = claim_proof dat\<rparr> acc (programId this)]
               else [])
            @ (if unlockDue cs dat (nowTs w) d then [ClaimLocked acc (programId this)] else [])"
proof -
  from prepareClaim_known [OF key ident dist run] obtain cs' pre acc where
    h: "claimStatusAt w (getClaimantStatusPda k (programId this) dpk invoker)
          = (case cs' of None \<Rightarrow> NotFound | Some s \<Rightarrow> Found s)"
       "ixs = map Setup pre
            @ (if cs' = None
               then [NewClaim \<lparr>nc_amountLocked = amountLocked dat,
                               nc_amountUnlocked = amountUnlocked dat,
                               nc_proof = claim_proof dat\<rparr> acc (programId this)]
               else [])
            @ (if unlockDue cs' dat (nowTs w) d then [ClaimLocked acc (programId this)] else [])"
    by blast
  from h(1) status have e: "(cs' = None) = (cs = None)"
    by (cases cs; cases cs') simp_all
  then have u: "unlockDue cs' dat (nowTs w) d = unlockDue cs dat (nowTs w) d"
    by (simp add: unlockDue_def)
  from h(2) u e show ?thesis by auto
qed

text \<open>The three shapes of the claim instructions that end a composed list.\<close>

lemma prepareClaim_cases:
  assumes run: "fst (prepareClaimInstructions k this w dat ext) = Inr ixs"
  shows "\<exists>pre a acc.
      ixs = map Setup pre @ [NewClaim a acc (programId this)]
      \<or> ixs = map Setup pre @ [NewClaim a acc (programId this), ClaimLocked acc (programId this)]
      \<or> ixs = map Setup pre @ [ClaimLocked acc (programId this)]"
proof -
  from prepareClaim_shape [OF run] obtain d cs pre acc where
    h: "ixs = map Setup pre
            @ (if cs = None
               then [NewClaim \<lparr>nc_amountLocked = amountLocked dat,
                               nc_amountUnlocked = amountUnlocked dat,
                               nc_proof = claim_proof dat\<rparr> acc (programId this)]
               else [])
            @ (if unlockDue cs dat (nowTs w) d then [ClaimLocked acc (programId this)] else [])"
    by blast
  show ?thesis
  proof (cases cs)
    case None
    with h show ?thesis by (cases "unlockDue None dat (nowTs w) d") auto
  next
    case (Some s)
    then have "unlockDue cs dat (nowTs w) d" by (simp add: unlockDue_def)
    with h Some show ?thesis by auto
  qed
qed

text \<open>
  The create composer once the identity check, the mint and the reads are passed, for
  vesting bounds that are both set: the vesting check decides.
\<close>

lemma prepareCreate_reached:
  assumes key: "invokerPublicKey ext = Some invoker"
    and mnt: "(if isNative ext then Some NATIVE_MINT else newPublicKey k (cd_mint dat)) = Some m"
    and mintRead: "mintAt w m = Found (ma, tp)"
    and wrapRead: "isNative ext \<longrightarrow> wrappedAt w invoker (cd_maxTotalClaim dat) = Some wx"
    and nonzero: "cd_startVestingTs dat \<noteq> 0" "cd_endVestingTs dat \<noteq> 0"
  shows "fst (prepareCreateInstructions k this w dat ext) =
      (if cd_endVestingTs dat > cd_startVestingTs dat
          \<and> cd_endVestingTs dat - cd_startVestingTs dat < cd_unlockPeriod dat
       then Inl UnlockPeriodTooLong
       else Inr (getDistributorPda k (programId this) m (cd_version dat),
                 map Setup (prepareBaseInstructions k ext)
                 @ map Setup (if isNative ext then wx else [])
                 @ [NewDistributor
                      \<lparr>a_version = cd_version dat,
                                a_root = cd_root dat,
                                a_maxTotalClaim = cd_maxTotalClaim dat,
                                a_maxNumNodes = cd_maxNumNodes dat,
                                a_unlockPeriod = cd_unlockPeriod dat,
                                a_startVestingTs = cd_startVestingTs dat,
                                a_endVestingTs = cd_endVestingTs dat,
                                a_clawbackStartTs = cd_clawbackStartTs dat,
                                a_claimsClosable = cd_claimsClosable dat\<rparr>
                      \<lparr>nd_distributor = getDistributorPda k (programId this) m (cd_version dat),
                                    nd_clawbackReceiver = ata k m invoker tp,
                                    nd_mint = m,
                                    nd_tokenVault = ata k m (getDistributorPda k (programId this) m (cd_version dat)) tp,
                                    nd_admin = invoker,
                                    nd_systemProgram = SystemProgram_programId,
                                    nd_associatedTokenProgram = ASSOCIATED_TOKEN_PROGRAM_ID,
                                    nd_tokenProgram = tp\<rparr>
                      (programId this),
                    TransferChecked (ata k m invoker tp) m
                      (ata k m (getDistributorPda k (programId this) m (cd_version dat)) tp)
                      invoker (cd_maxTotalClaim dat) (decimals ma) tp]))"
proof (cases "isNative ext")
  case True
  with assms show ?thesis
    by (simp add: prepareCreateInstructions_def getMintAndProgram_def
        prepareWrappedAccount_def Let_def views_logRead)
next
  case False
  with assms show ?thesis
    by (simp add: prepareCreateInstructions_def getMintAndProgram_def Let_def)
qed

text \<open>
  Whatever the world is: the unlock-period error is raised for a too long unlock period
  only, and with one no list is returned.
\<close>

lemma prepareCreate_window:
  assumes nonzero: "cd_startVestingTs dat \<noteq> 0" "cd_endVestingTs dat \<noteq> 0"
    and window: "cd_endVestingTs dat > cd_startVestingTs dat"
  shows "(fst (prepareCreateInstructions k this w dat ext) = Inl UnlockPeriodTooLong
            \<longrightarrow> cd_endVestingTs dat - cd_startVestingTs dat < cd_unlockPeriod dat)
         \<and> (cd_endVestingTs dat - cd_startVestingTs dat < cd_unlockPeriod dat
            \<longrightarrow> (\<forall>x. fst (prepareCreateInstructions k this w dat ext) \<noteq> Inr x))"
  using assms
  unfolding prepareCreateInstructions_def getMintAndProgram_def prepareWrappedAccount_def
  by (auto simp: Let_def split: option.splits fetched.splits prod.splits sum.splits if_splits)

text \<open>The vesting check comes after the read of the mint.\<close>

lemma prepareCreate_vesting_error_reads:
  assumes "fst (prepareCreateInstructions k this w dat ext) = Inl UnlockPeriodTooLong"
  shows "\<exists>m rest. reads (snd (prepareCreateInstructions k this w dat ext))
                    = reads w @ ReadMint m # rest"
  using assms
  unfolding prepareCreateInstructions_def getMintAndProgram_def prepareWrappedAccount_def
  by (auto simp: Let_def logRead_def
      split: option.splits fetched.splits prod.splits sum.splits if_splits)

section \<open>The claims\<close>

text \<open>
  In the theorems below, \<open>invoker\<close> is the invoker's public key, \<open>dpk\<close> the
  distributor's address \<^verbatim>\<open>new PublicKey(data.id)\<close>, \<open>d\<close> the distributor account
  the chain holds there, and \<open>ixs\<close> the instruction list a run returns. The claim status
  is read at the address derived from the program, the distributor and the invoker, and
  the current time is \<open>nowTs w\<close>.
\<close>

text \<open>
  Claim C1, as amended. If a ClaimStatus record is present and the unlock is not yet due
  (\<open>nowTs w - startTs d < unlockPeriod d\<close>), the instruction list composed by
  \<^verbatim>\<open>prepareClaimInstructions\<close> contains no new-claim instruction and exactly one
  claim-locked instruction, its last element; everything before it is prefix or ATA setup.
  The claim as stated, that the list then holds no claim instruction at all, fails: line
  256 pushes the claim-locked instruction whenever \<^verbatim>\<open>claimStatus\<close> is truthy.
\<close>

theorem status_present_before_unlock:
  assumes key: "invokerPublicKey ext = Some invoker"
    and ident: "newPublicKey k (claim_id dat) = Some dpk"
    and dist: "distributorAt w dpk = Found d"
    and status: "claimStatusAt w (getClaimantStatusPda k (programId this) dpk invoker) = Found s"
    and notDue: "nowTs w - startTs d < unlockPeriod d"
    and run: "fst (prepareClaimInstructions k this w dat ext) = Inr ixs"
  shows "filter isNewClaim ixs = []
         \<and> (\<exists>pre acc. ixs = map Setup pre @ [ClaimLocked acc (programId this)])"
proof -
  from status have "claimStatusAt w (getClaimantStatusPda k (programId this) dpk invoker)
      = (case Some s of None \<Rightarrow> NotFound | Some s \<Rightarrow> Found s)" by simp
  from prepareClaim_tail [OF key ident dist this run] obtain pre acc where
    shape: "ixs = map Setup pre @ [ClaimLocked acc (programId this)]"
    by (auto simp: unlockDue_def)
  then have "filter isNewClaim ixs = []" by simp
  with shape show ?thesis by blast
qed

text \<open>
  The witness: a claim status exists, alice has no token account yet, and the time is
  1499, one second before the unlock.
\<close>

theorem status_present_before_unlock_witness:
  "nowTs (world0 1499999 (Found status1) NotFound) - startTs distributor0 < unlockPeriod distributor0
   \<and> fst (prepareClaimInstructions sdk0 client0 (world0 1499999 (Found status1) NotFound)
            (request0 ''dist'' 100) (ext0 (Some ''alice'')))
       = Inr [createAta0, ClaimLocked accounts0 ''prog'']
   \<and> filter isNewClaim [createAta0, ClaimLocked accounts0 ''prog''] = []
   \<and> (\<exists>pre acc. [createAta0, ClaimLocked accounts0 ''prog'']
                    = map Setup pre @ [ClaimLocked acc (programId client0)])"
proof -
  have r: "fst (prepareClaimInstructions sdk0 client0 (world0 1499999 (Found status1) NotFound)
            (request0 ''dist'' 100) (ext0 (Some ''alice'')))
       = Inr [createAta0, ClaimLocked accounts0 ''prog'']"
    by (simp add: claim_run_defs createAta0_def)
  have n: "nowTs (world0 1499999 (Found status1) NotFound) - startTs distributor0
             < unlockPeriod distributor0"
    by (simp add: claim_run_defs createAta0_def)
  have "filter isNewClaim [createAta0, ClaimLocked accounts0 ''prog''] = []
        \<and> (\<exists>pre acc. [createAta0, ClaimLocked accounts0 ''prog'']
                    = map Setup pre @ [ClaimLocked acc (programId client0)])"
    by (rule status_present_before_unlock
          [where invoker = "''alice''" and dpk = "''dist''" and d = distributor0 and s = status1,
           OF _ _ _ _ n r])
       (simp_all add: claim_run_defs createAta0_def)
  with r n show ?thesis by blast
qed

text \<open>
  The counterexample to the claim as stated, scenario 8 of the specification: a claim
  status exists, the time is 1200 and the unlock is due at 1500, yet the composed list is
  the claim-locked instruction.
\<close>

theorem status_present_before_unlock_counterexample:
  "invokerPublicKey (ext0 (Some ''alice'')) = Some ''alice''
   \<and> newPublicKey sdk0 (claim_id (request0 ''dist'' 100)) = Some ''dist''
   \<and> distributorAt (world0 1200000 (Found status0) (Found ())) ''dist'' = Found distributor0
   \<and> claimStatusAt (world0 1200000 (Found status0) (Found ()))
        (getClaimantStatusPda sdk0 (programId client0) ''dist'' ''alice'') = Found status0
   \<and> nowTs (world0 1200000 (Found status0) (Found ())) = 1200
   \<and> nowTs (world0 1200000 (Found status0) (Found ())) - startTs distributor0
        < unlockPeriod distributor0
   \<and> fst (prepareClaimInstructions sdk0 client0 (world0 1200000 (Found status0) (Found ()))
            (request0 ''dist'' 100) (ext0 (Some ''alice'')))
       = Inr [ClaimLocked accounts0 ''prog'']
   \<and> isClaimIx (ClaimLocked accounts0 ''prog'')"
  by (simp add: claim_run_defs isClaimIx_def)

text \<open>
  Claim C2. If a ClaimStatus record is present, the instruction list composed by
  \<^verbatim>\<open>prepareClaimInstructions\<close> includes a claim-locked instruction, whether or not the
  unlock window has elapsed and whatever \<^verbatim>\<open>amountLocked\<close> is: the theorem assumes
  nothing about the time, the distributor's unlock period or the request.
\<close>

theorem status_present_forces_claim_locked:
  assumes key: "invokerPublicKey ext = Some invoker"
    and ident: "newPublicKey k (claim_id dat) = Some dpk"
    and dist: "distributorAt w dpk = Found d"
    and status: "claimStatusAt w (getClaimantStatusPda k (programId this) dpk invoker) = Found s"
    and run: "fst (prepareClaimInstructions k this w dat ext) = Inr ixs"
  shows "\<exists>ix \<in> set ixs. isClaimLocked ix"
proof -
  from status have "claimStatusAt w (getClaimantStatusPda k (programId this) dpk invoker)
      = (case Some s of None \<Rightarrow> NotFound | Some s \<Rightarrow> Found s)" by simp
  from prepareClaim_tail [OF key ident dist this run] obtain pre acc where
    "ixs = map Setup pre @ [ClaimLocked acc (programId this)]"
    by (auto simp: unlockDue_def)
  then show ?thesis by simp
qed

text \<open>
  The witness: a claim status exists, the time is 1200 (200 seconds after the start, the
  unlock period being 500) and the request locks nothing.
\<close>

theorem status_present_forces_claim_locked_witness:
  "nowTs (world0 1200000 (Found status0) (Found ())) - startTs distributor0 < unlockPeriod distributor0
   \<and> amountLocked (request0 ''dist'' 0) = 0
   \<and> fst (prepareClaimInstructions sdk0 client0 (world0 1200000 (Found status0) (Found ()))
            (request0 ''dist'' 0) (ext0 (Some ''alice''))) = Inr [ClaimLocked accounts0 ''prog'']
   \<and> (\<exists>ix \<in> set [ClaimLocked accounts0 ''prog'']. isClaimLocked ix)"
proof -
  have r: "fst (prepareClaimInstructions sdk0 client0 (world0 1200000 (Found status0) (Found ()))
            (request0 ''dist'' 0) (ext0 (Some ''alice''))) = Inr [ClaimLocked accounts0 ''prog'']"
    by (simp add: claim_run_defs)
  have "\<exists>ix \<in> set [ClaimLocked accounts0 ''prog'']. isClaimLocked ix"
    by (rule status_present_forces_claim_locked
          [where invoker = "''alice''" and dpk = "''dist''" and d = distributor0 and s = status0,
           OF _ _ _ _ r])
       (simp_all add: claim_run_defs)
  with r show ?thesis by (simp add: claim_run_defs)
qed

text \<open>
  Claim C3, as amended. For all creation parameters with
  \<open>endVestingTs > startVestingTs > 0\<close>: \<^verbatim>\<open>prepareCreateInstructions\<close> raises the
  unlock-period error only if \<open>endVestingTs - startVestingTs < unlockPeriod\<close>, and
  returns no instruction list if so. When the invoker's public key is present and the
  steps before the check succeed (the mint is a public key and is read, and for a native
  mint the wrapped account is read), it fails with an InvalidInput error if and only if
  \<open>endVestingTs - startVestingTs < unlockPeriod\<close>, the error being the one of the
  unlock period; otherwise it returns the address of the distributor and the composed
  instruction list. The claim as stated, for all inputs, fails: a missing invoker key is
  an InvalidInput failure whatever the vesting window is.
\<close>

theorem vesting_window_checked:
  assumes start: "cd_startVestingTs dat > 0"
    and window: "cd_endVestingTs dat > cd_startVestingTs dat"
  shows "(fst (prepareCreateInstructions k this w dat ext) = Inl UnlockPeriodTooLong
            \<longrightarrow> cd_endVestingTs dat - cd_startVestingTs dat < cd_unlockPeriod dat)
         \<and> (cd_endVestingTs dat - cd_startVestingTs dat < cd_unlockPeriod dat
            \<longrightarrow> (\<forall>x. fst (prepareCreateInstructions k this w dat ext) \<noteq> Inr x))
         \<and> (invokerPublicKey ext = Some invoker
             \<and> (if isNative ext then Some NATIVE_MINT else newPublicKey k (cd_mint dat)) = Some m
             \<and> mintAt w m = Found (ma, tp)
             \<and> (isNative ext \<longrightarrow> wrappedAt w invoker (cd_maxTotalClaim dat) = Some wx)
            \<longrightarrow> ((\<exists>e. fst (prepareCreateInstructions k this w dat ext) = Inl e \<and> isInvalidInput e)
                   \<longleftrightarrow> cd_endVestingTs dat - cd_startVestingTs dat < cd_unlockPeriod dat)
                \<and> (cd_endVestingTs dat - cd_startVestingTs dat < cd_unlockPeriod dat
                     \<longrightarrow> fst (prepareCreateInstructions k this w dat ext) = Inl UnlockPeriodTooLong)
                \<and> (\<not> cd_endVestingTs dat - cd_startVestingTs dat < cd_unlockPeriod dat
                     \<longrightarrow> (\<exists>ixs. fst (prepareCreateInstructions k this w dat ext)
                          = Inr (getDistributorPda k (programId this) m (cd_version dat), ixs))))"
proof -
  from start window have nz: "cd_startVestingTs dat \<noteq> 0" "cd_endVestingTs dat \<noteq> 0" by simp_all
  have reached: "((\<exists>e. fst (prepareCreateInstructions k this w dat ext) = Inl e \<and> isInvalidInput e)
                   \<longleftrightarrow> cd_endVestingTs dat - cd_startVestingTs dat < cd_unlockPeriod dat)
                \<and> (cd_endVestingTs dat - cd_startVestingTs dat < cd_unlockPeriod dat
                     \<longrightarrow> fst (prepareCreateInstructions k this w dat ext) = Inl UnlockPeriodTooLong)
                \<and> (\<not> cd_endVestingTs dat - cd_startVestingTs dat < cd_unlockPeriod dat
                     \<longrightarrow> (\<exists>ixs. fst (prepareCreateInstructions k this w dat ext)
                          = Inr (getDistributorPda k (programId this) m (cd_version dat), ixs)))"
    if key: "invokerPublicKey ext = Some invoker"
      and mnt: "(if isNative ext then Some NATIVE_MINT else newPublicKey k (cd_mint dat)) = Some m"
      and mintRead: "mintAt w m = Found (ma, tp)"
      and wrapRead: "isNative ext \<longrightarrow> wrappedAt w invoker (cd_maxTotalClaim dat) = Some wx"
  proof (cases "cd_endVestingTs dat - cd_startVestingTs dat < cd_unlockPeriod dat")
    case True
    with window prepareCreate_reached [OF key mnt mintRead wrapRead nz, of this]
    have "fst (prepareCreateInstructions k this w dat ext) = Inl UnlockPeriodTooLong" by simp
    with True show ?thesis by (simp add: isInvalidInput_def)
  next
    case False
    with prepareCreate_reached [OF key mnt mintRead wrapRead nz, of this]
    have "\<exists>ixs. fst (prepareCreateInstructions k this w dat ext)
                  = Inr (getDistributorPda k (programId this) m (cd_version dat), ixs)"
      by simp
    with False show ?thesis by auto
  qed
  with prepareCreate_window [OF nz window, of k this w ext] show ?thesis by blast
qed

text \<open>
  The witness: a window of 1000 seconds, with an unlock period of 1001 (refused) and of
  1000 (composed).
\<close>

theorem vesting_window_checked_witness:
  "fst (prepareCreateInstructions sdk0 client0 (world0 0 NotFound NotFound)
          (createData0 1000 2000 1001) (ext0 (Some ''alice''))) = Inl UnlockPeriodTooLong
   \<and> isInvalidInput UnlockPeriodTooLong
   \<and> (\<exists>ixs. fst (prepareCreateInstructions sdk0 client0 (world0 0 NotFound NotFound)
          (createData0 1000 2000 1000) (ext0 (Some ''alice''))) = Inr (''D/mint'', ixs))"
proof -
  have a: "fst (prepareCreateInstructions sdk0 client0 (world0 0 NotFound NotFound)
          (createData0 1000 2000 1001) (ext0 (Some ''alice''))) = Inl UnlockPeriodTooLong"
    using vesting_window_checked
      [where dat = "createData0 1000 2000 1001" and ext = "ext0 (Some ''alice'')"
         and invoker = "''alice''" and k = sdk0 and m = "''mint''"
         and w = "world0 0 NotFound NotFound" and ma = "\<lparr>decimals = 9\<rparr>" and tp = "''tokenprog''"
         and this = client0 and wx = "[]"]
    by (simp add: sdk0_def ext0_def createData0_def world0_def)
  have b: "\<exists>ixs. fst (prepareCreateInstructions sdk0 client0 (world0 0 NotFound NotFound)
          (createData0 1000 2000 1000) (ext0 (Some ''alice''))) = Inr (''D/mint'', ixs)"
    using vesting_window_checked
      [where dat = "createData0 1000 2000 1000" and ext = "ext0 (Some ''alice'')"
         and invoker = "''alice''" and k = sdk0 and m = "''mint''"
         and w = "world0 0 NotFound NotFound" and ma = "\<lparr>decimals = 9\<rparr>" and tp = "''tokenprog''"
         and this = client0 and wx = "[]"]
    by (simp add: sdk0_def ext0_def createData0_def world0_def client0_def)
  from a b show ?thesis by (simp add: isInvalidInput_def)
qed

text \<open>
  The counterexample to the claim as stated: the window is 1000 seconds and the unlock
  period 500, and the run fails with an InvalidInput error, since the wallet has no
  public key. In the other direction, with an unlock period of 1500 and a network that
  fails to read the mint, the run fails with an error that is not InvalidInput.
\<close>

theorem vesting_window_checked_counterexample:
  "cd_startVestingTs (createData0 1000 2000 500) > 0
   \<and> cd_endVestingTs (createData0 1000 2000 500) > cd_startVestingTs (createData0 1000 2000 500)
   \<and> \<not> cd_endVestingTs (createData0 1000 2000 500) - cd_startVestingTs (createData0 1000 2000 500)
         < cd_unlockPeriod (createData0 1000 2000 500)
   \<and> fst (prepareCreateInstructions sdk0 client0 (world0 0 NotFound NotFound)
            (createData0 1000 2000 500) (ext0 None)) = Inl InvokerKeyMissing
   \<and> isInvalidInput InvokerKeyMissing
   \<and> cd_endVestingTs (createData0 1000 2000 1500) - cd_startVestingTs (createData0 1000 2000 1500)
         < cd_unlockPeriod (createData0 1000 2000 1500)
   \<and> fst (prepareCreateInstructions sdk0 client0
            ((world0 0 NotFound NotFound)\<lparr>mintAt := (\<lambda>a. Failed)\<rparr>)
            (createData0 1000 2000 1500) (ext0 (Some ''alice''))) = Inl FetchFailed
   \<and> \<not> isInvalidInput FetchFailed"
  by (simp add: prepareCreateInstructions_def getMintAndProgram_def
        prepareWrappedAccount_def logRead_def nowTs_def Let_def sdk0_def client0_def world0_def
        ext0_def createData0_def isInvalidInput_def)

text \<open>
  Claim C4, as amended. If the claim status is NotFound, the new-claim instruction is the
  first claim instruction of the list composed by \<^verbatim>\<open>prepareClaimInstructions\<close>: only
  prefix and ATA setup instructions precede it, so it is the first element when there are
  none. The claim as stated, that it is always the first element, fails: lines 214 to 223
  put the base instructions and the creation of a missing token account in front.
\<close>

theorem first_claim_starts_with_new_claim:
  assumes key: "invokerPublicKey ext = Some invoker"
    and ident: "newPublicKey k (claim_id dat) = Some dpk"
    and dist: "distributorAt w dpk = Found d"
    and status: "claimStatusAt w (getClaimantStatusPda k (programId this) dpk invoker) = NotFound"
    and run: "fst (prepareClaimInstructions k this w dat ext) = Inr ixs"
  shows "\<exists>pre acc rest.
           ixs = map Setup pre
                 @ NewClaim \<lparr>nc_amountLocked = amountLocked dat,
                             nc_amountUnlocked = amountUnlocked dat,
                             nc_proof = claim_proof dat\<rparr> acc (programId this) # rest
           \<and> hd (filter isClaimIx ixs)
               = NewClaim \<lparr>nc_amountLocked = amountLocked dat,
                           nc_amountUnlocked = amountUnlocked dat,
                           nc_proof = claim_proof dat\<rparr> acc (programId this)"
proof -
  from status have "claimStatusAt w (getClaimantStatusPda k (programId this) dpk invoker)
      = (case None of None \<Rightarrow> NotFound | Some s \<Rightarrow> Found s)" by simp
  from prepareClaim_tail [OF key ident dist this run] obtain pre acc where
    shape: "ixs = map Setup pre
          @ [NewClaim \<lparr>nc_amountLocked = amountLocked dat,
                       nc_amountUnlocked = amountUnlocked dat,
                       nc_proof = claim_proof dat\<rparr> acc (programId this)]
          @ (if unlockDue None dat (nowTs w) d then [ClaimLocked acc (programId this)] else [])"
    by auto
  then have "hd (filter isClaimIx ixs)
               = NewClaim \<lparr>nc_amountLocked = amountLocked dat,
                           nc_amountUnlocked = amountUnlocked dat,
                           nc_proof = claim_proof dat\<rparr> acc (programId this)"
    by (simp add: isClaimIx_def)
  with shape show ?thesis by auto
qed

text \<open>
  The witness: a first claim after the unlock, by a claimant without a token account.
\<close>

theorem first_claim_starts_with_new_claim_witness:
  "fst (prepareClaimInstructions sdk0 client0 (world0 1600000 NotFound NotFound)
            (request0 ''dist'' 100) (ext0 (Some ''alice'')))
       = Inr [createAta0, newClaim0 100, ClaimLocked accounts0 ''prog'']
   \<and> hd (filter isClaimIx [createAta0, newClaim0 100, ClaimLocked accounts0 ''prog''])
       = newClaim0 100"
proof -
  have r: "fst (prepareClaimInstructions sdk0 client0 (world0 1600000 NotFound NotFound)
            (request0 ''dist'' 100) (ext0 (Some ''alice'')))
       = Inr [createAta0, newClaim0 100, ClaimLocked accounts0 ''prog'']"
    by (simp add: claim_run_defs createAta0_def newClaim0_def)
  have "\<exists>pre acc rest.
           [createAta0, newClaim0 100, ClaimLocked accounts0 ''prog''] = map Setup pre
                 @ NewClaim \<lparr>nc_amountLocked = amountLocked (request0 ''dist'' 100),
                             nc_amountUnlocked = amountUnlocked (request0 ''dist'' 100),
                             nc_proof = claim_proof (request0 ''dist'' 100)\<rparr> acc (programId client0) # rest
           \<and> hd (filter isClaimIx [createAta0, newClaim0 100, ClaimLocked accounts0 ''prog''])
               = NewClaim \<lparr>nc_amountLocked = amountLocked (request0 ''dist'' 100),
                           nc_amountUnlocked = amountUnlocked (request0 ''dist'' 100),
                           nc_proof = claim_proof (request0 ''dist'' 100)\<rparr> acc (programId client0)"
    by (rule first_claim_starts_with_new_claim
          [where invoker = "''alice''" and dpk = "''dist''" and d = distributor0,
           OF _ _ _ _ r])
       (simp_all add: claim_run_defs createAta0_def newClaim0_def)
  then have "hd (filter isClaimIx [createAta0, newClaim0 100, ClaimLocked accounts0 ''prog''])
       = newClaim0 100"
    by (auto simp: claim_run_defs createAta0_def newClaim0_def isClaimIx_def)
  with r show ?thesis by blast
qed

text \<open>
  The counterexample to the claim as stated: a first claim at time 1400 by a claimant
  whose token account does not exist yet. The first element of the list creates the
  account; the new-claim instruction is the second.
\<close>

theorem first_claim_starts_with_new_claim_counterexample:
  "invokerPublicKey (ext0 (Some ''alice'')) = Some ''alice''
   \<and> newPublicKey sdk0 (claim_id (request0 ''dist'' 100)) = Some ''dist''
   \<and> distributorAt (world0 1400000 NotFound NotFound) ''dist'' = Found distributor0
   \<and> claimStatusAt (world0 1400000 NotFound NotFound)
        (getClaimantStatusPda sdk0 (programId client0) ''dist'' ''alice'') = NotFound
   \<and> fst (prepareClaimInstructions sdk0 client0 (world0 1400000 NotFound NotFound)
            (request0 ''dist'' 100) (ext0 (Some ''alice'')))
       = Inr [createAta0, newClaim0 100]
   \<and> hd [createAta0, newClaim0 100]
       = Setup (CreateAta ''alice'' ''A/mint/alice'' ''alice'' ''mint'' ''tokenprog'')
   \<and> \<not> isNewClaim (hd [createAta0, newClaim0 100])"
  by (simp add: claim_run_defs createAta0_def newClaim0_def)

text \<open>
  Claim C5, as amended. The claim composition emits at most one new-claim and at most one
  claim-locked instruction, after the setup instructions and in the order new-claim, then
  claim-locked; and it always emits at least one of the two, so a returned list is never
  without a claim instruction. The claim as stated says that both may be absent; no run
  composes such a list, since a missing claim status pushes new-claim (line 246) and a
  present one pushes claim-locked (line 256).
\<close>

theorem claim_instructions_order:
  assumes run: "fst (prepareClaimInstructions k this w dat ext) = Inr ixs"
  shows "(\<exists>pre a acc.
            ixs = map Setup pre @ [NewClaim a acc (programId this)]
            \<or> ixs = map Setup pre @ [NewClaim a acc (programId this),
                                      ClaimLocked acc (programId this)]
            \<or> ixs = map Setup pre @ [ClaimLocked acc (programId this)])
         \<and> length (filter isNewClaim ixs) \<le> 1
         \<and> length (filter isClaimLocked ixs) \<le> 1
         \<and> filter isClaimIx ixs \<noteq> []"
proof -
  from prepareClaim_cases [OF run] obtain pre a acc where
    shape: "ixs = map Setup pre @ [NewClaim a acc (programId this)]
            \<or> ixs = map Setup pre @ [NewClaim a acc (programId this),
                                      ClaimLocked acc (programId this)]
            \<or> ixs = map Setup pre @ [ClaimLocked acc (programId this)]"
    by blast
  then have "length (filter isNewClaim ixs) \<le> 1" by auto
  moreover from shape have "length (filter isClaimLocked ixs) \<le> 1" by auto
  moreover from shape have "filter isClaimIx ixs \<noteq> []" by (auto simp: isClaimIx_def)
  ultimately show ?thesis using shape by blast
qed

text \<open>
  The witness: a first claim after the unlock, which has both instructions.
\<close>

theorem claim_instructions_order_witness:
  "fst (prepareClaimInstructions sdk0 client0 (world0 1600000 NotFound (Found ()))
          (request0 ''dist'' 100) (ext0 (Some ''alice'')))
     = Inr [newClaim0 100, ClaimLocked accounts0 ''prog'']
   \<and> length (filter isNewClaim [newClaim0 100, ClaimLocked accounts0 ''prog'']) \<le> 1
   \<and> length (filter isClaimLocked [newClaim0 100, ClaimLocked accounts0 ''prog'']) \<le> 1
   \<and> filter isClaimIx [newClaim0 100, ClaimLocked accounts0 ''prog''] \<noteq> []"
proof -
  have r: "fst (prepareClaimInstructions sdk0 client0 (world0 1600000 NotFound (Found ()))
          (request0 ''dist'' 100) (ext0 (Some ''alice'')))
     = Inr [newClaim0 100, ClaimLocked accounts0 ''prog'']"
    by (simp add: claim_run_defs newClaim0_def)
  from claim_instructions_order [OF r] r show ?thesis by blast
qed

text \<open>
  The negation of the part of the claim that fails: no inputs at all make the composer
  return a list without a claim instruction.
\<close>

theorem claim_instructions_order_counterexample:
  "\<not> (\<exists>k this w dat ext ixs.
         fst (prepareClaimInstructions k this w dat ext) = Inr ixs
         \<and> filter isClaimIx ixs = [])"
proof
  assume "\<exists>k this w dat ext ixs.
         fst (prepareClaimInstructions k this w dat ext) = Inr ixs
         \<and> filter isClaimIx ixs = []"
  then obtain k this w dat ext ixs where
    run: "fst (prepareClaimInstructions k this w dat ext) = Inr ixs"
    and none: "filter isClaimIx ixs = []"
    by blast
  from prepareClaim_cases [OF run] obtain pre a acc where
    "ixs = map Setup pre @ [NewClaim a acc (programId this)]
     \<or> ixs = map Setup pre @ [NewClaim a acc (programId this),
                               ClaimLocked acc (programId this)]
     \<or> ixs = map Setup pre @ [ClaimLocked acc (programId this)]"
    by blast
  then have "filter isClaimIx ixs \<noteq> []" by (auto simp: isClaimIx_def)
  with none show False by simp
qed

text \<open>
  Claim C6. If \<^verbatim>\<open>request.amountLocked == 0\<close> and no ClaimStatus record exists, the
  unlock-due condition is false and \<^verbatim>\<open>prepareClaimInstructions\<close> emits no claim-locked
  instruction, however much time has elapsed since the start: the theorem assumes nothing
  about the time.
\<close>

theorem nothing_locked_no_claim_locked:
  assumes key: "invokerPublicKey ext = Some invoker"
    and ident: "newPublicKey k (claim_id dat) = Some dpk"
    and dist: "distributorAt w dpk = Found d"
    and status: "claimStatusAt w (getClaimantStatusPda k (programId this) dpk invoker) = NotFound"
    and zero: "amountLocked dat = 0"
    and run: "fst (prepareClaimInstructions k this w dat ext) = Inr ixs"
  shows "\<not> unlockDue None dat (nowTs w) d \<and> filter isClaimLocked ixs = []"
proof -
  from zero have u: "\<not> unlockDue None dat (nowTs w) d" by (simp add: unlockDue_def)
  from status have "claimStatusAt w (getClaimantStatusPda k (programId this) dpk invoker)
      = (case None of None \<Rightarrow> NotFound | Some s \<Rightarrow> Found s)" by simp
  from prepareClaim_tail [OF key ident dist this run] u obtain pre acc where
    "ixs = map Setup pre
          @ [NewClaim \<lparr>nc_amountLocked = amountLocked dat,
                       nc_amountUnlocked = amountUnlocked dat,
                       nc_proof = claim_proof dat\<rparr> acc (programId this)]"
    by auto
  then have "filter isClaimLocked ixs = []" by simp
  with u show ?thesis by simp
qed

text \<open>
  The witness: a first claim that locks nothing, long after the unlock period.
\<close>

theorem nothing_locked_no_claim_locked_witness:
  "nowTs (world0 987654321000 NotFound (Found ())) - startTs distributor0
     \<ge> unlockPeriod distributor0
   \<and> amountLocked (request0 ''dist'' 0) = 0
   \<and> fst (prepareClaimInstructions sdk0 client0 (world0 987654321000 NotFound (Found ()))
            (request0 ''dist'' 0) (ext0 (Some ''alice'')))
       = Inr [newClaim0 0]
   \<and> \<not> unlockDue None (request0 ''dist'' 0) (nowTs (world0 987654321000 NotFound (Found ())))
          distributor0
   \<and> filter isClaimLocked [newClaim0 0] = []"
proof -
  have r: "fst (prepareClaimInstructions sdk0 client0 (world0 987654321000 NotFound (Found ()))
            (request0 ''dist'' 0) (ext0 (Some ''alice'')))
       = Inr [newClaim0 0]"
    by (simp add: claim_run_defs newClaim0_def)
  have z: "amountLocked (request0 ''dist'' 0) = 0" by (simp add: claim_run_defs newClaim0_def)
  have t: "nowTs (world0 987654321000 NotFound (Found ())) - startTs distributor0
     \<ge> unlockPeriod distributor0" by (simp add: claim_run_defs newClaim0_def)
  have "\<not> unlockDue None (request0 ''dist'' 0) (nowTs (world0 987654321000 NotFound (Found ())))
          distributor0
   \<and> filter isClaimLocked [newClaim0 0] = []"
    by (rule nothing_locked_no_claim_locked
          [where invoker = "''alice''" and dpk = "''dist''" and this = client0 and k = sdk0,
           OF _ _ _ _ z r])
       (simp_all add: claim_run_defs newClaim0_def)
  with r z t show ?thesis by blast
qed

text \<open>
  Claim C7. For every request with \<^verbatim>\<open>amountLocked > 0\<close> and every current time with
  \<open>nowTs w - startTs d \<ge> unlockPeriod d\<close>, the instruction list composed by
  \<^verbatim>\<open>prepareClaimInstructions\<close> includes the claim-locked instruction, whether a
  ClaimStatus record exists or not: the theorem assumes nothing about the claim status.
\<close>

theorem unlock_elapsed_includes_claim_locked:
  assumes key: "invokerPublicKey ext = Some invoker"
    and ident: "newPublicKey k (claim_id dat) = Some dpk"
    and dist: "distributorAt w dpk = Found d"
    and locked: "amountLocked dat > 0"
    and due: "nowTs w - startTs d \<ge> unlockPeriod d"
    and run: "fst (prepareClaimInstructions k this w dat ext) = Inr ixs"
  shows "\<exists>ix \<in> set ixs. isClaimLocked ix"
proof -
  from locked due have u: "\<And>cs. unlockDue cs dat (nowTs w) d" by (simp add: unlockDue_def)
  from prepareClaim_known [OF key ident dist run] obtain cs pre acc where
    "ixs = map Setup pre
            @ (if cs = None
               then [NewClaim \<lparr>nc_amountLocked = amountLocked dat,
                               nc_amountUnlocked = amountUnlocked dat,
                               nc_proof = claim_proof dat\<rparr> acc (programId this)]
               else [])
            @ (if unlockDue cs dat (nowTs w) d then [ClaimLocked acc (programId this)] else [])"
    by blast
  with u have "ClaimLocked acc (programId this) \<in> set ixs" by simp
  then show ?thesis by force
qed

text \<open>
  The witness: at time 1500, the first second of the unlock, once without and once with
  a claim status.
\<close>

theorem unlock_elapsed_includes_claim_locked_witness:
  "fst (prepareClaimInstructions sdk0 client0 (world0 1500000 NotFound (Found ()))
          (request0 ''dist'' 1) (ext0 (Some ''alice'')))
     = Inr [newClaim0 1, ClaimLocked accounts0 ''prog'']
   \<and> (\<exists>ix \<in> set [newClaim0 1, ClaimLocked accounts0 ''prog'']. isClaimLocked ix)
   \<and> fst (prepareClaimInstructions sdk0 client0 (world0 1500000 (Found status0) (Found ()))
          (request0 ''dist'' 1) (ext0 (Some ''alice'')))
     = Inr [ClaimLocked accounts0 ''prog'']
   \<and> (\<exists>ix \<in> set [ClaimLocked accounts0 ''prog'']. isClaimLocked ix)"
proof -
  have r1: "fst (prepareClaimInstructions sdk0 client0 (world0 1500000 NotFound (Found ()))
          (request0 ''dist'' 1) (ext0 (Some ''alice'')))
     = Inr [newClaim0 1, ClaimLocked accounts0 ''prog'']"
    by (simp add: claim_run_defs newClaim0_def)
  have r2: "fst (prepareClaimInstructions sdk0 client0 (world0 1500000 (Found status0) (Found ()))
          (request0 ''dist'' 1) (ext0 (Some ''alice'')))
     = Inr [ClaimLocked accounts0 ''prog'']"
    by (simp add: claim_run_defs newClaim0_def)
  have l: "amountLocked (request0 ''dist'' 1) > 0" by (simp add: claim_run_defs newClaim0_def)
  have c1: "\<exists>ix \<in> set [newClaim0 1, ClaimLocked accounts0 ''prog'']. isClaimLocked ix"
    by (rule unlock_elapsed_includes_claim_locked
          [where invoker = "''alice''" and dpk = "''dist''" and d = distributor0,
           OF _ _ _ l _ r1])
       (simp_all add: claim_run_defs newClaim0_def)
  have c2: "\<exists>ix \<in> set [ClaimLocked accounts0 ''prog'']. isClaimLocked ix"
    by (rule unlock_elapsed_includes_claim_locked
          [where invoker = "''alice''" and dpk = "''dist''" and d = distributor0,
           OF _ _ _ l _ r2])
       (simp_all add: claim_run_defs newClaim0_def)
  from r1 r2 c1 c2 show ?thesis by blast
qed

text \<open>
  Claim C8, as amended. A missing invoker public key is raised by all three composers
  before any network call: the run returns the error and leaves the world as it was, the
  log of reads included. The failure for malformed vesting parameters is not: whenever
  \<^verbatim>\<open>prepareCreateInstructions\<close> raises it, the mint has been read from the network
  before (line 125, the check being on line 159).
\<close>

theorem invalid_input_and_network_reads:
  "(invokerPublicKey ext = None \<longrightarrow>
       prepareCreateInstructions k this w dat ext = (Inl InvokerKeyMissing, w)
     \<and> prepareClaimInstructions k this w cdat ext = (Inl InvokerKeyMissing, w)
     \<and> prepareClawbackInstructions k this w bdat ext = (Inl InvokerKeyMissing, w))
   \<and> (fst (prepareCreateInstructions k this w dat ext) = Inl UnlockPeriodTooLong \<longrightarrow>
        (\<exists>m rest. reads (snd (prepareCreateInstructions k this w dat ext))
                    = reads w @ ReadMint m # rest))"
proof -
  have "invokerPublicKey ext = None \<longrightarrow>
       prepareCreateInstructions k this w dat ext = (Inl InvokerKeyMissing, w)
     \<and> prepareClaimInstructions k this w cdat ext = (Inl InvokerKeyMissing, w)
     \<and> prepareClawbackInstructions k this w bdat ext = (Inl InvokerKeyMissing, w)"
    by (simp add: prepareCreateInstructions_def prepareClaimInstructions_def
        prepareClawbackInstructions_def)
  with prepareCreate_vesting_error_reads [of k this w dat ext] show ?thesis by blast
qed

text \<open>
  The witness: the three composers with a wallet that has no public key, and a creation
  whose unlock period of 1500 exceeds the window of 1000.
\<close>

theorem invalid_input_and_network_reads_witness:
  "prepareCreateInstructions sdk0 client0 (world0 0 NotFound NotFound)
       (createData0 1000 2000 1500) (ext0 None)
     = (Inl InvokerKeyMissing, world0 0 NotFound NotFound)
   \<and> prepareClaimInstructions sdk0 client0 (world0 0 NotFound NotFound)
       (request0 ''dist'' 100) (ext0 None)
     = (Inl InvokerKeyMissing, world0 0 NotFound NotFound)
   \<and> prepareClawbackInstructions sdk0 client0 (world0 0 NotFound NotFound)
       (clawbackData0 ''dist'') (ext0 None)
     = (Inl InvokerKeyMissing, world0 0 NotFound NotFound)
   \<and> fst (prepareCreateInstructions sdk0 client0 (world0 0 NotFound NotFound)
            (createData0 1000 2000 1500) (ext0 (Some ''alice''))) = Inl UnlockPeriodTooLong
   \<and> (\<exists>m rest. reads (snd (prepareCreateInstructions sdk0 client0 (world0 0 NotFound NotFound)
                              (createData0 1000 2000 1500) (ext0 (Some ''alice''))))
                 = reads (world0 0 NotFound NotFound) @ ReadMint m # rest)"
proof -
  have n: "invokerPublicKey (ext0 None) = None" by (simp add: ext0_def)
  have e: "fst (prepareCreateInstructions sdk0 client0 (world0 0 NotFound NotFound)
            (createData0 1000 2000 1500) (ext0 (Some ''alice''))) = Inl UnlockPeriodTooLong"
    by (simp add: prepareCreateInstructions_def getMintAndProgram_def
        prepareWrappedAccount_def logRead_def nowTs_def Let_def sdk0_def client0_def world0_def
        ext0_def createData0_def)
  from invalid_input_and_network_reads
         [of "ext0 None" sdk0 client0 "world0 0 NotFound NotFound" "createData0 1000 2000 1500"
            "request0 ''dist'' 100" "clawbackData0 ''dist''"] n
  have a: "prepareCreateInstructions sdk0 client0 (world0 0 NotFound NotFound)
       (createData0 1000 2000 1500) (ext0 None)
     = (Inl InvokerKeyMissing, world0 0 NotFound NotFound)
   \<and> prepareClaimInstructions sdk0 client0 (world0 0 NotFound NotFound)
       (request0 ''dist'' 100) (ext0 None)
     = (Inl InvokerKeyMissing, world0 0 NotFound NotFound)
   \<and> prepareClawbackInstructions sdk0 client0 (world0 0 NotFound NotFound)
       (clawbackData0 ''dist'') (ext0 None)
     = (Inl InvokerKeyMissing, world0 0 NotFound NotFound)"
    by blast
  from invalid_input_and_network_reads
         [of "ext0 (Some ''alice'')" sdk0 client0 "world0 0 NotFound NotFound"
            "createData0 1000 2000 1500" "request0 ''dist'' 100" "clawbackData0 ''dist''"] e
  have b: "\<exists>m rest. reads (snd (prepareCreateInstructions sdk0 client0 (world0 0 NotFound NotFound)
                              (createData0 1000 2000 1500) (ext0 (Some ''alice''))))
                 = reads (world0 0 NotFound NotFound) @ ReadMint m # rest"
    by blast
  from a e b show ?thesis by blast
qed

text \<open>
  The counterexample to the claim as stated: the creation with an unlock period of 1500
  and a window of 1000 starts with an empty log and raises the InvalidInput failure with
  the read of the mint in the log.
\<close>

theorem invalid_input_and_network_reads_counterexample:
  "fst (prepareCreateInstructions sdk0 client0 (world0 0 NotFound NotFound)
          (createData0 1000 2000 1500) (ext0 (Some ''alice''))) = Inl UnlockPeriodTooLong
   \<and> isInvalidInput UnlockPeriodTooLong
   \<and> reads (world0 0 NotFound NotFound) = []
   \<and> reads (snd (prepareCreateInstructions sdk0 client0 (world0 0 NotFound NotFound)
                   (createData0 1000 2000 1500) (ext0 (Some ''alice'')))) = [ReadMint ''mint'']"
  by (simp add: prepareCreateInstructions_def getMintAndProgram_def
        prepareWrappedAccount_def logRead_def nowTs_def Let_def sdk0_def client0_def world0_def
        ext0_def createData0_def isInvalidInput_def)




text \<open>
  Claim C10. When the fetch of the distributor account returns NotFound, both
  \<^verbatim>\<open>prepareClaimInstructions\<close> and \<^verbatim>\<open>prepareClawbackInstructions\<close> raise the error
  "Couldn't get account info". The fetch is made once the invoker has a public key and
  \<^verbatim>\<open>data.id\<close> is one. The absence of the claim status is tolerated: with the
  distributor, the mint and the token accounts read, the claim composer returns a list.
\<close>

theorem missing_distributor_raises:
  assumes key: "invokerPublicKey ext = Some invoker"
    and claimIdent: "newPublicKey k (claim_id dat) = Some dpk"
    and clawbackIdent: "newPublicKey k (clawback_id bdat) = Some dpk"
  shows "(distributorAt w dpk = NotFound \<longrightarrow>
            fst (prepareClaimInstructions k this w dat ext) = Inl AccountInfoMissing
          \<and> fst (prepareClawbackInstructions k this w bdat ext) = Inl AccountInfoMissing)
       \<and> (distributorAt w dpk = Found d
            \<and> mintAt w (mint d) = Found (ma, tp)
            \<and> tokenAccountAt w (ata k (mint d) invoker tp) \<noteq> Failed
            \<and> claimStatusAt w (getClaimantStatusPda k (programId this) dpk invoker) = NotFound
          \<longrightarrow> (\<exists>ixs. fst (prepareClaimInstructions k this w dat ext) = Inr ixs))"
  using assms
  by (simp add: prepareClaimInstructions_def prepareClawbackInstructions_def
      MerkleDistributor_fetch_def getMintAndProgram_def checkOrCreateAtaBatch_def
      ClaimStatus_fetch_def Let_def views_logRead)

text \<open>
  The witness: an address that holds no distributor, and the distributor of the
  campaign with no claim status for alice.
\<close>

theorem missing_distributor_raises_witness:
  "distributorAt (world0 1600000 NotFound NotFound) ''nowhere'' = NotFound
   \<and> fst (prepareClaimInstructions sdk0 client0 (world0 1600000 NotFound NotFound)
            (request0 ''nowhere'' 100) (ext0 (Some ''alice''))) = Inl AccountInfoMissing
   \<and> fst (prepareClawbackInstructions sdk0 client0 (world0 1600000 NotFound NotFound)
            (clawbackData0 ''nowhere'') (ext0 (Some ''alice''))) = Inl AccountInfoMissing
   \<and> claimStatusAt (world0 1600000 NotFound NotFound)
        (getClaimantStatusPda sdk0 (programId client0) ''dist'' ''alice'') = NotFound
   \<and> (\<exists>ixs. fst (prepareClaimInstructions sdk0 client0 (world0 1600000 NotFound NotFound)
                   (request0 ''dist'' 100) (ext0 (Some ''alice''))) = Inr ixs)"
proof -
  have n: "distributorAt (world0 1600000 NotFound NotFound) ''nowhere'' = NotFound"
    by (simp add: world0_def)
  have s: "claimStatusAt (world0 1600000 NotFound NotFound)
        (getClaimantStatusPda sdk0 (programId client0) ''dist'' ''alice'') = NotFound"
    by (simp add: world0_def)
  have a: "fst (prepareClaimInstructions sdk0 client0 (world0 1600000 NotFound NotFound)
            (request0 ''nowhere'' 100) (ext0 (Some ''alice''))) = Inl AccountInfoMissing
   \<and> fst (prepareClawbackInstructions sdk0 client0 (world0 1600000 NotFound NotFound)
            (clawbackData0 ''nowhere'') (ext0 (Some ''alice''))) = Inl AccountInfoMissing"
    using missing_distributor_raises
      [where ext = "ext0 (Some ''alice'')" and invoker = "''alice''" and k = sdk0
         and dat = "request0 ''nowhere'' 100" and bdat = "clawbackData0 ''nowhere''"
         and dpk = "''nowhere''" and w = "world0 1600000 NotFound NotFound" and this = client0]
      n
    by (simp add: ext0_def sdk0_def request0_def clawbackData0_def)
  have b: "\<exists>ixs. fst (prepareClaimInstructions sdk0 client0 (world0 1600000 NotFound NotFound)
                   (request0 ''dist'' 100) (ext0 (Some ''alice''))) = Inr ixs"
    using missing_distributor_raises
      [where ext = "ext0 (Some ''alice'')" and invoker = "''alice''" and k = sdk0
         and dat = "request0 ''dist'' 100" and bdat = "clawbackData0 ''dist''"
         and dpk = "''dist''" and w = "world0 1600000 NotFound NotFound" and this = client0
         and d = distributor0 and ma = "\<lparr>decimals = 9\<rparr>" and tp = "''tokenprog''"]
    by (simp add: ext0_def sdk0_def request0_def clawbackData0_def world0_def distributor0_def
        client0_def)
  from n s a b show ?thesis by blast
qed

end
